theory Spec2Isabelle
  imports Main "HOL-Library.Sublist" "HOL-Library.Word"
begin

section \<open>Python strings\<close>

text \<open>
  A Python \<open>str\<close> is a sequence of Unicode code points; slicing, \<open>strip\<close> and
  \<open>replace\<close> all count code points. A code point is a natural number here, and
  \<open>ascii\<close> writes an ASCII literal of the source as such a sequence.
\<close>

type_synonym codepoint = nat
type_synonym str = "codepoint list"

definition ascii :: "string \<Rightarrow> str" where
  "ascii s = map of_char s"

text \<open>
  The code points that \<open>str.strip()\<close> without argument removes: those for which
  \<open>str.isspace\<close> holds.
\<close>

definition isspace :: "codepoint \<Rightarrow> bool" where
  "isspace c \<longleftrightarrow>
     (9 \<le> c \<and> c \<le> 13) \<or> (28 \<le> c \<and> c \<le> 32) \<or> c = 133 \<or> c = 160 \<or> c = 5760 \<or>
     (8192 \<le> c \<and> c \<le> 8202) \<or> c = 8232 \<or> c = 8233 \<or> c = 8239 \<or> c = 8287 \<or>
     c = 12288"

definition strip :: "str \<Rightarrow> str" where
  "strip s = rev (dropWhile isspace (rev (dropWhile isspace s)))"

text \<open>
  \<open>str.replace(old, new)\<close>: one pass from the left over non-overlapping occurrences.
  With an empty \<open>old\<close> Python puts \<open>new\<close> before every code point and at the end.
\<close>

function replace :: "str \<Rightarrow> str \<Rightarrow> str \<Rightarrow> str" where
  "replace old new [] = (if old = [] then new else [])"
| "replace old new (c # cs) =
     (if old = [] then new @ concat (map (\<lambda>x. x # new) (c # cs))
      else if prefix old (c # cs) then new @ replace old new (drop (length old) (c # cs))
      else c # replace old new cs)"
  by pat_completeness auto
termination
  by (relation "measure (\<lambda>(old, new, s). length s)") auto

section \<open>The safe JSON parser\<close>

definition lbrace :: codepoint where
  "lbrace = 123"

definition rbrace :: codepoint where
  "rbrace = 125"

text \<open>
  \<open>re.search(r"\{[\s\S]*\}", cleaned)\<close>. The class \<open>[\s\S]\<close> accepts every code
  point, newlines included. \<open>greedy_to_rbrace\<close> is the tail \<open>[\s\S]*\}\<close> of the
  pattern anchored at the head of its argument: the star first takes the next code point
  and only when the rest cannot be matched gives it back to \<open>\}\<close>. \<open>match_here\<close> is
  the whole pattern anchored at the head, and \<open>re_search\<close> tries the start positions
  from the left, returning \<open>match.group()\<close> of the first that matches.
\<close>

fun greedy_to_rbrace :: "str \<Rightarrow> str option" where
  "greedy_to_rbrace [] = None"
| "greedy_to_rbrace (c # cs) =
     (case greedy_to_rbrace cs of
        Some m \<Rightarrow> Some (c # m)
      | None \<Rightarrow> if c = rbrace then Some [c] else None)"

fun match_here :: "str \<Rightarrow> str option" where
  "match_here [] = None"
| "match_here (c # cs) =
     (if c = lbrace then map_option ((#) c) (greedy_to_rbrace cs) else None)"

fun re_search :: "str \<Rightarrow> str option" where
  "re_search [] = None"
| "re_search (c # cs) =
     (case match_here (c # cs) of Some m \<Rightarrow> Some m | None \<Rightarrow> re_search cs)"

text \<open>
  The exceptions the functions of the program let escape. \<open>JSONDecodeError\<close> is the
  exception of \<open>json.loads\<close>; it carries the document it was given (its attribute
  \<open>doc\<close>). \<open>ValueError\<close> carries its message. \<open>RecursionError\<close> is raised when the
  recursion limit of the interpreter is reached. \<open>AttributeError\<close> is what
  \<open>None.strip()\<close> raises, and \<open>LibraryError\<close> stands for an exception raised inside a
  third-party library, named by its class.
\<close>

datatype exn = ValueError str | JSONDecodeError str | RecursionError | UnicodeDecodeError
  | AttributeError | LibraryError string

definition fence_json :: str where
  "fence_json = ascii ''```json''"

definition fence :: str where
  "fence = ascii ''```''"

definition cleaned :: "str \<Rightarrow> str" where
  "cleaned text = strip (replace fence [] (replace fence_json [] text))"

text \<open>
  \<open>json.loads\<close> belongs to the standard library; it is the parameter \<open>loads\<close>, which
  gives the decoded value or the exception the library raises. The call is not guarded, so
  \<open>safe_json_parse\<close> returns or raises whatever \<open>loads\<close> does.
\<close>

definition safe_json_parse :: "(str \<Rightarrow> exn + 'v) \<Rightarrow> str \<Rightarrow> exn + 'v" where
  "safe_json_parse loads text =
     (case re_search (cleaned text) of
        None \<Rightarrow> Inl (ValueError (ascii ''No JSON object found in Gemini output''))
      | Some doc \<Rightarrow> loads doc)"

section \<open>A reference JSON decoder\<close>

text \<open>
  The theorems about \<open>safe_json_parse\<close> hold for every \<open>loads\<close>. To run the parser on
  concrete model outputs, \<open>json_loads\<close> decodes a document the way \<open>json.loads\<close>
  does: insignificant whitespace, the literals, numbers, strings with their escapes
  (a surrogate pair of \<open>\u\<close> escapes is joined), arrays, and objects in which a repeated
  key keeps its first position and its last value. A number with a fraction or an exponent
  and the constants \<open>NaN\<close>, \<open>Infinity\<close>, \<open>-Infinity\<close> become \<open>JFloat\<close> of the
  literal as written, since floating point itself is not modelled. The recursion runs on
  fuel, twice the length of the document and two more: of two nested calls at least one
  consumes a code point.

  The decoder raises as the library does. A document that is not JSON gives
  \<open>JSONDecodeError\<close> with the document. An integer literal of more than 4300 digits gives
  the plain \<open>ValueError\<close> of the conversion to \<open>int\<close> (the default limit of
  \<open>sys.set_int_max_str_digits\<close>). Every array and object entered takes one level of the
  recursion of the interpreter; \<open>room\<close> is the number of levels that the recursion limit
  leaves at the call, and an array or object nested deeper gives \<open>RecursionError\<close>.
\<close>

datatype json = JNull | JBool bool | JInt int | JFloat str | JString str
  | JArray "json list" | JObject "(str \<times> json) list"

definition json_ws :: "codepoint \<Rightarrow> bool" where
  "json_ws c \<longleftrightarrow> c = 32 \<or> c = 9 \<or> c = 10 \<or> c = 13"

definition skip_ws :: "str \<Rightarrow> str" where
  "skip_ws s = dropWhile json_ws s"

definition is_digit :: "codepoint \<Rightarrow> bool" where
  "is_digit c \<longleftrightarrow> 48 \<le> c \<and> c \<le> 57"

definition hex_digit :: "codepoint \<Rightarrow> nat option" where
  "hex_digit c =
     (if 48 \<le> c \<and> c \<le> 57 then Some (c - 48)
      else if 97 \<le> c \<and> c \<le> 102 then Some (c - 87)
      else if 65 \<le> c \<and> c \<le> 70 then Some (c - 55)
      else None)"

fun hex4 :: "str \<Rightarrow> (nat \<times> str) option" where
  "hex4 (a # b # c # d # rest) =
     (case (hex_digit a, hex_digit b, hex_digit c, hex_digit d) of
        (Some w, Some x, Some y, Some z) \<Rightarrow> Some (((w * 16 + x) * 16 + y) * 16 + z, rest)
      | _ \<Rightarrow> None)"
| "hex4 _ = None"

definition simple_escape :: "codepoint \<Rightarrow> codepoint option" where
  "simple_escape c =
     (if c = 34 then Some 34 else if c = 92 then Some 92 else if c = 47 then Some 47
      else if c = 98 then Some 8 else if c = 102 then Some 12 else if c = 110 then Some 10
      else if c = 114 then Some 13 else if c = 116 then Some 9 else None)"

definition low_surrogate :: "str \<Rightarrow> (nat \<times> str) option" where
  "low_surrogate s =
     (case s of
        a # b # r \<Rightarrow>
          (if a = 92 \<and> b = 117 then
             (case hex4 r of
                Some (l, r') \<Rightarrow> if 56320 \<le> l \<and> l \<le> 57343 then Some (l, r') else None
              | None \<Rightarrow> None)
           else None)
      | _ \<Rightarrow> None)"

definition unicode_escape :: "str \<Rightarrow> (codepoint \<times> str) option" where
  "unicode_escape s =
     (case hex4 s of
        None \<Rightarrow> None
      | Some (u, r) \<Rightarrow>
          (if 55296 \<le> u \<and> u \<le> 56319 then
             (case low_surrogate r of
                Some (l, r') \<Rightarrow> Some (65536 + (u - 55296) * 1024 + (l - 56320), r')
              | None \<Rightarrow> Some (u, r))
           else Some (u, r)))"

fun scan_string :: "nat \<Rightarrow> str \<Rightarrow> (str \<times> str) option" where
  "scan_string 0 s = None"
| "scan_string (Suc n) [] = None"
| "scan_string (Suc n) (c # cs) =
     (if c = 34 then Some ([], cs)
      else if c = 92 then
        (case cs of
           [] \<Rightarrow> None
         | e # es \<Rightarrow>
             (case (if e = 117 then unicode_escape es
                    else map_option (\<lambda>x. (x, es)) (simple_escape e)) of
                None \<Rightarrow> None
              | Some (x, r) \<Rightarrow> map_option (apfst ((#) x)) (scan_string n r)))
      else if c < 32 then None
      else map_option (apfst ((#) c)) (scan_string n cs))"

definition digits_value :: "str \<Rightarrow> nat" where
  "digits_value ds = foldl (\<lambda>a d. 10 * a + (d - 48)) 0 ds"

definition int_part :: "str \<Rightarrow> (str \<times> str) option" where
  "int_part s =
     (case s of
        [] \<Rightarrow> None
      | c # cs \<Rightarrow>
          if c = 48 then Some ([c], cs)
          else if is_digit c then Some (c # takeWhile is_digit cs, dropWhile is_digit cs)
          else None)"

definition frac_part :: "str \<Rightarrow> (str \<times> str)" where
  "frac_part s =
     (case s of
        c # d # r \<Rightarrow>
          if c = 46 \<and> is_digit d then (c # d # takeWhile is_digit r, dropWhile is_digit r)
          else ([], s)
      | _ \<Rightarrow> ([], s))"

definition exp_digits :: "str \<Rightarrow> str \<Rightarrow> str \<Rightarrow> (str \<times> str)" where
  "exp_digits pre s whole =
     (case s of
        d # r \<Rightarrow> if is_digit d then (pre @ d # takeWhile is_digit r, dropWhile is_digit r)
                 else ([], whole)
      | [] \<Rightarrow> ([], whole))"

definition exp_part :: "str \<Rightarrow> (str \<times> str)" where
  "exp_part s =
     (case s of
        e # r \<Rightarrow>
          if e = 101 \<or> e = 69 then
            (case r of
               g # r' \<Rightarrow> if g = 43 \<or> g = 45 then exp_digits [e, g] r' s else exp_digits [e] r s
             | [] \<Rightarrow> ([], s))
          else ([], s)
      | [] \<Rightarrow> ([], s))"

text \<open>What scanning a value gives: the value and the rest, a syntax error, or an exception.\<close>

datatype 'a scanned = Scanned 'a | Malformed | Raising exn

function decimal :: "nat \<Rightarrow> str" where
  "decimal n = (if n < 10 then [48 + n] else decimal (n div 10) @ [48 + n mod 10])"
  by pat_completeness auto
termination
  by (relation "measure (\<lambda>n. n)") auto

definition int_max_str_digits :: nat where
  "int_max_str_digits = 4300"

definition exceeds_the_limit :: "nat \<Rightarrow> exn" where
  "exceeds_the_limit digits =
     ValueError
       (ascii ''Exceeds the limit ('' @ decimal int_max_str_digits @
        ascii '' digits) for integer string conversion: value has '' @ decimal digits @
        ascii '' digits; use sys.set_int_max_str_digits() to increase the limit'')"

definition scan_number :: "str \<Rightarrow> (json \<times> str) scanned" where
  "scan_number s =
     (let (sign, s1) = (case s of c # cs \<Rightarrow> if c = 45 then ([c], cs) else ([], s) | [] \<Rightarrow> ([], s))
      in case int_part s1 of
           None \<Rightarrow> Malformed
         | Some (ds, s2) \<Rightarrow>
             (let (fr, s3) = frac_part s2; (ex, s4) = exp_part s3
              in if fr = [] \<and> ex = []
                 then (if int_max_str_digits < length ds then Raising (exceeds_the_limit (length ds))
                       else Scanned (JInt (if sign = [] then int (digits_value ds)
                                           else - int (digits_value ds)), s4))
                 else Scanned (JFloat (sign @ ds @ fr @ ex), s4)))"

definition literal :: "string \<Rightarrow> json \<Rightarrow> str \<Rightarrow> (json \<times> str) scanned" where
  "literal w v s =
     (if prefix (ascii w) s then Scanned (v, drop (length w) s) else Malformed)"

fun dict_set :: "(str \<times> json) list \<Rightarrow> str \<Rightarrow> json \<Rightarrow> (str \<times> json) list" where
  "dict_set [] k v = [(k, v)]"
| "dict_set ((k', v') # d) k v = (if k' = k then (k, v) # d else (k', v') # dict_set d k v)"

fun parse_value :: "nat \<Rightarrow> nat \<Rightarrow> str \<Rightarrow> (json \<times> str) scanned"
  and parse_elements :: "nat \<Rightarrow> nat \<Rightarrow> json list \<Rightarrow> str \<Rightarrow> (json \<times> str) scanned"
  and parse_members :: "nat \<Rightarrow> nat \<Rightarrow> (str \<times> json) list \<Rightarrow> str \<Rightarrow> (json \<times> str) scanned"
where
  "parse_value 0 room s = Malformed"
| "parse_value (Suc n) room [] = Malformed"
| "parse_value (Suc n) room (c # cs) =
     (if c = 34 then
        (case scan_string (length cs) cs of
           None \<Rightarrow> Malformed
         | Some (x, r) \<Rightarrow> Scanned (JString x, r))
      else if c = 123 then
        (if room = 0 then Raising RecursionError
         else
           (case skip_ws cs of
              [] \<Rightarrow> Malformed
            | d # ds \<Rightarrow>
                if d = 125 then Scanned (JObject [], ds)
                else parse_members n (room - 1) [] (d # ds)))
      else if c = 91 then
        (if room = 0 then Raising RecursionError
         else
           (case skip_ws cs of
              [] \<Rightarrow> Malformed
            | d # ds \<Rightarrow>
                if d = 93 then Scanned (JArray [], ds)
                else parse_elements n (room - 1) [] (d # ds)))
      else if c = 110 then literal ''null'' JNull (c # cs)
      else if c = 116 then literal ''true'' (JBool True) (c # cs)
      else if c = 102 then literal ''false'' (JBool False) (c # cs)
      else if c = 78 then literal ''NaN'' (JFloat (ascii ''NaN'')) (c # cs)
      else if c = 73 then literal ''Infinity'' (JFloat (ascii ''Infinity'')) (c # cs)
      else if c = 45 \<and> prefix (ascii ''-Infinity'') (c # cs)
        then literal ''-Infinity'' (JFloat (ascii ''-Infinity'')) (c # cs)
      else scan_number (c # cs))"
| "parse_elements 0 room acc s = Malformed"
| "parse_elements (Suc n) room acc s =
     (case parse_value n room s of
        Malformed \<Rightarrow> Malformed
      | Raising e \<Rightarrow> Raising e
      | Scanned (v, r) \<Rightarrow>
          (case skip_ws r of
             [] \<Rightarrow> Malformed
           | d # ds \<Rightarrow>
               if d = 93 then Scanned (JArray (acc @ [v]), ds)
               else if d = 44 then parse_elements n room (acc @ [v]) (skip_ws ds)
               else Malformed))"
| "parse_members 0 room acc s = Malformed"
| "parse_members (Suc n) room acc s =
     (case s of
        [] \<Rightarrow> Malformed
      | q # qs \<Rightarrow>
          if q \<noteq> 34 then Malformed
          else
            (case scan_string (length qs) qs of
               None \<Rightarrow> Malformed
             | Some (k, r) \<Rightarrow>
                 (case skip_ws r of
                    [] \<Rightarrow> Malformed
                  | col # r1 \<Rightarrow>
                      if col \<noteq> 58 then Malformed
                      else
                        (case parse_value n room (skip_ws r1) of
                           Malformed \<Rightarrow> Malformed
                         | Raising e \<Rightarrow> Raising e
                         | Scanned (v, r2) \<Rightarrow>
                             (case skip_ws r2 of
                                [] \<Rightarrow> Malformed
                              | d # ds \<Rightarrow>
                                  if d = 125 then Scanned (JObject (dict_set acc k v), ds)
                                  else if d = 44
                                    then parse_members n room (dict_set acc k v) (skip_ws ds)
                                  else Malformed)))))"

definition json_loads :: "nat \<Rightarrow> str \<Rightarrow> exn + json" where
  "json_loads room s =
     (case parse_value (2 * length s + 2) room (skip_ws s) of
        Malformed \<Rightarrow> Inl (JSONDecodeError s)
      | Raising e \<Rightarrow> Inl e
      | Scanned (v, r) \<Rightarrow> if skip_ws r = [] then Inr v else Inl (JSONDecodeError s))"

section \<open>File helpers\<close>

text \<open>
  An uploaded file is a byte stream with a read position (a \<open>BytesIO\<close>);
  \<open>file.read()\<close> gives the bytes from the position to the end and moves the position
  there.
\<close>

type_synonym byte = "8 word"

record upload =
  data :: "byte list"
  pos :: nat

definition read :: "upload \<Rightarrow> byte list \<times> upload" where
  "read f = (drop (pos f) (data f), f\<lparr>pos := max (pos f) (length (data f))\<rparr>)"

text \<open>
  \<open>bytes.decode("utf-8")\<close> with the default strict error handling: shortest form only,
  no surrogates, nothing above U+10FFFF. \<open>None\<close> is \<open>UnicodeDecodeError\<close>.
\<close>

definition continuation :: "nat \<Rightarrow> bool" where
  "continuation b \<longleftrightarrow> 128 \<le> b \<and> b \<le> 191"

definition second_of_3 :: "nat \<Rightarrow> nat \<Rightarrow> bool" where
  "second_of_3 b b1 =
     (if b = 224 then 160 \<le> b1 \<and> b1 \<le> 191
      else if b = 237 then 128 \<le> b1 \<and> b1 \<le> 159
      else continuation b1)"

definition second_of_4 :: "nat \<Rightarrow> nat \<Rightarrow> bool" where
  "second_of_4 b b1 =
     (if b = 240 then 144 \<le> b1 \<and> b1 \<le> 191
      else if b = 244 then 128 \<le> b1 \<and> b1 \<le> 143
      else continuation b1)"

fun utf8 :: "nat list \<Rightarrow> str option" where
  "utf8 [] = Some []"
| "utf8 (b # bs) =
     (if b < 128 then map_option ((#) b) (utf8 bs)
      else if 194 \<le> b \<and> b \<le> 223 then
        (case bs of
           b1 # r \<Rightarrow>
             if continuation b1
             then map_option ((#) ((b - 192) * 64 + (b1 - 128))) (utf8 r)
             else None
         | _ \<Rightarrow> None)
      else if 224 \<le> b \<and> b \<le> 239 then
        (case bs of
           b1 # b2 # r \<Rightarrow>
             if second_of_3 b b1 \<and> continuation b2
             then map_option ((#) (((b - 224) * 64 + (b1 - 128)) * 64 + (b2 - 128))) (utf8 r)
             else None
         | _ \<Rightarrow> None)
      else if 240 \<le> b \<and> b \<le> 244 then
        (case bs of
           b1 # b2 # b3 # r \<Rightarrow>
             if second_of_4 b b1 \<and> continuation b2 \<and> continuation b3
             then map_option
                    ((#) ((((b - 240) * 64 + (b1 - 128)) * 64 + (b2 - 128)) * 64 + (b3 - 128)))
                    (utf8 r)
             else None
         | _ \<Rightarrow> None)
      else None)"

definition decode_utf8 :: "byte list \<Rightarrow> str option" where
  "decode_utf8 bs = utf8 (map unat bs)"

definition extract_text_from_txt :: "upload \<Rightarrow> exn + str" where
  "extract_text_from_txt file =
     (case decode_utf8 (fst (read file)) of
        None \<Rightarrow> Inl UnicodeDecodeError
      | Some s \<Rightarrow> Inr (strip s))"

text \<open>
  The two PDF engines are libraries and enter as parameters. \<open>plumber file\<close> is
  \<open>pdfplumber.open(file)\<close> with the page loop that follows: it either raises on opening
  or gives, page by page, what \<open>page.extract_text()\<close> does (a text, \<open>None\<close>, or an
  exception), and it leaves the stream at some read position. \<open>fitz bs\<close> is
  \<open>fitz.open(stream=bs, filetype="pdf")\<close> with \<open>get_text()\<close> of every page, or the
  exception raised on the way.
\<close>

datatype 'e page = Text str | NoText | Fails 'e

fun plumber_pages :: "str \<Rightarrow> 'e page list \<Rightarrow> str \<times> 'e option" where
  "plumber_pages text [] = (text, None)"
| "plumber_pages text (Text t # ps) = plumber_pages (text @ t) ps"
| "plumber_pages text (NoText # ps) = plumber_pages (text @ []) ps"
| "plumber_pages text (Fails e # ps) = (text, Some e)"

definition primary :: "(upload \<Rightarrow> nat \<times> ('e + 'e page list)) \<Rightarrow> upload \<Rightarrow> str \<times> 'e option" where
  "primary plumber file =
     (case snd (plumber file) of
        Inl e \<Rightarrow> ([], Some e)
      | Inr pages \<Rightarrow> plumber_pages [] pages)"

definition extract_text_from_pdf ::
  "(upload \<Rightarrow> nat \<times> ('e + 'e page list)) \<Rightarrow> (byte list \<Rightarrow> 'e + str list) \<Rightarrow> upload \<Rightarrow> 'e + str"
where
  "extract_text_from_pdf plumber fitz file =
     (case primary plumber file of
        (text, None) \<Rightarrow> Inr (strip text)
      | (text, Some e) \<Rightarrow>
          (case fitz (fst (read (file\<lparr>pos := fst (plumber file)\<rparr>))) of
             Inl e' \<Rightarrow> Inl e'
           | Inr texts \<Rightarrow> Inr (strip (text @ concat texts))))"

section \<open>Gemini analysis\<close>

definition prompt_head :: str where
  "prompt_head = ascii
     (''\<newline>STRICT RULES:\<newline>- Return ONLY valid JSON\<newline>'' @
      ''- Start with { and end with }\<newline>- No markdown\<newline>- No explanation\<newline>'' @
      ''\<newline>FORMAT:\<newline>{\<newline>  \"match_score\": 0-100,\<newline>'' @
      ''  \"matched_skills\": [],\<newline>  \"missing_skills\": [],\<newline>'' @
      ''  \"experience_fit\": \"LOW | MEDIUM | HIGH\",\<newline>'' @
      ''  \"recommendation\": \"APPLY | SKIP\",\<newline>  \"summary\": \"\"\<newline>}\<newline>'' @
      ''\<newline>RESUME:\<newline>\"\"\"'')"

definition prompt_mid :: str where
  "prompt_mid = ascii ''\"\"\"\<newline>\<newline>JOB DESCRIPTION:\<newline>\"\"\"''"

definition prompt_tail :: str where
  "prompt_tail = ascii ''\"\"\"\<newline>''"

definition prompt :: "str \<Rightarrow> str \<Rightarrow> str" where
  "prompt resume_text jd_text =
     prompt_head @ take 4000 resume_text @ prompt_mid @ take 4000 jd_text @ prompt_tail"

text \<open>
  \<open>generate p\<close> is \<open>client.models.generate_content(model=..., contents=p).text\<close>: an
  exception, or the text of the response, which is \<open>None\<close> when the response has none.
\<close>

definition analyze_resume_vs_jd :: "(str \<Rightarrow> exn + str option) \<Rightarrow> str \<Rightarrow> str \<Rightarrow> exn + str" where
  "analyze_resume_vs_jd generate resume_text jd_text =
     (case generate (prompt resume_text jd_text) of
        Inl e \<Rightarrow> Inl e
      | Inr None \<Rightarrow> Inl AttributeError
      | Inr (Some t) \<Rightarrow> Inr (strip t))"

section \<open>Sending to n8n\<close>

text \<open>
  What \<open>requests.post\<close> can do: return a response (of any status code), or raise.
  \<open>ReadTimeout\<close>, \<open>ConnectTimeout\<close>, \<open>ConnectionError\<close> and \<open>MissingSchema\<close> are
  subclasses of \<open>RequestException\<close>; \<open>OtherRequestException\<close> is any further subclass
  and \<open>NotRequestException\<close> an exception outside that hierarchy.
\<close>

datatype requests_exn = ReadTimeout | ConnectTimeout | ConnectionError | MissingSchema
  | OtherRequestException | NotRequestException

definition is_RequestException :: "requests_exn \<Rightarrow> bool" where
  "is_RequestException e \<longleftrightarrow> e \<noteq> NotRequestException"

datatype post_result = Response nat | Raises requests_exn

text \<open>
  The outcome shown under "Automation Status": the two \<open>st.success\<close> messages, the
  \<open>st.error\<close> followed by \<open>st.stop()\<close>, or an exception no clause catches.
\<close>

datatype automation_status = Sent | Accepted | FailedToReach requests_exn
  | Uncaught requests_exn

datatype 'v field = Str str | Json 'v

type_synonym 'v payload = "(str \<times> 'v field) list"

text \<open>
  The dispatch block. Beside the status it returns the list of POST requests it issued,
  each with its URL and body.
\<close>

definition dispatch ::
  "(str option \<Rightarrow> 'v payload \<Rightarrow> post_result) \<Rightarrow> str option \<Rightarrow> 'v payload
     \<Rightarrow> automation_status \<times> (str option \<times> 'v payload) list"
where
  "dispatch post url payload =
     (case post url payload of
        Response code \<Rightarrow> (Sent, [(url, payload)])
      | Raises e \<Rightarrow>
          if e = ReadTimeout then (Accepted, [(url, payload)])
          else if is_RequestException e then (FailedToReach e, [(url, payload)])
          else (Uncaught e, [(url, payload)]))"

section \<open>The script\<close>

text \<open>
  One run of the script, from the environment and the state of the widgets. The libraries
  are the fields of \<open>libs\<close>. The result lists the pipeline stages that were entered, in
  order, and how the run ended.
\<close>

record ('c, 'v) libs =
  lib_Client :: "str option \<Rightarrow> exn + 'c"
  lib_generate_content :: "'c \<Rightarrow> str \<Rightarrow> exn + str option"
  lib_plumber :: "upload \<Rightarrow> nat \<times> (exn + exn page list)"
  lib_fitz :: "byte list \<Rightarrow> exn + str list"
  lib_loads :: "str \<Rightarrow> exn + 'v"
  lib_post :: "str option \<Rightarrow> 'v payload \<Rightarrow> post_result"

record widgets =
  candidate_name :: str
  company :: str
  role :: str
  recruiter_email :: str
  resume_file :: "(str \<times> upload) option"
  jd_text :: str
  button :: bool

datatype stage = Extraction | ModelCall | Parse | Dispatch

datatype 'v ending =
    Crashed exn
  | Idle
  | Warning
  | NotValidJson exn
  | Automation 'v automation_status

definition load_resume :: "('c, 'v) libs \<Rightarrow> (str \<times> upload) option \<Rightarrow> stage list \<times> (exn + str)" where
  "load_resume l uploaded =
     (case uploaded of
        None \<Rightarrow> ([], Inr [])
      | Some (type, file) \<Rightarrow>
          if type = ascii ''application/pdf''
          then ([Extraction], extract_text_from_pdf (lib_plumber l) (lib_fitz l) file)
          else ([Extraction], extract_text_from_txt file))"

definition all_filled :: "widgets \<Rightarrow> str \<Rightarrow> bool" where
  "all_filled ui resume_text \<longleftrightarrow>
     candidate_name ui \<noteq> [] \<and> company ui \<noteq> [] \<and> role ui \<noteq> [] \<and>
     recruiter_email ui \<noteq> [] \<and> resume_text \<noteq> [] \<and> strip (jd_text ui) \<noteq> []"

definition make_payload :: "widgets \<Rightarrow> 'v \<Rightarrow> 'v payload" where
  "make_payload ui result_json =
     [(ascii ''candidate_name'', Str (candidate_name ui)),
      (ascii ''company'', Str (company ui)),
      (ascii ''role'', Str (role ui)),
      (ascii ''recruiter_email'', Str (recruiter_email ui)),
      (ascii ''gemini_result'', Json result_json)]"

definition action :: "('c, 'v) libs \<Rightarrow> 'c \<Rightarrow> str option \<Rightarrow> widgets \<Rightarrow> str \<Rightarrow> stage list \<times> 'v ending" where
  "action l client N8N_WEBHOOK_URL ui resume_text =
     (if \<not> all_filled ui resume_text then ([], Warning)
      else
        (case analyze_resume_vs_jd (lib_generate_content l client) resume_text (jd_text ui) of
           Inl e \<Rightarrow> ([ModelCall], Crashed e)
         | Inr raw_output \<Rightarrow>
             (case safe_json_parse (lib_loads l) raw_output of
                Inl e \<Rightarrow> ([ModelCall, Parse], NotValidJson e)
              | Inr result_json \<Rightarrow>
                  ([ModelCall, Parse, Dispatch],
                   Automation result_json
                     (fst (dispatch (lib_post l) N8N_WEBHOOK_URL (make_payload ui result_json)))))))"

definition script :: "('c, 'v) libs \<Rightarrow> (str \<Rightarrow> str option) \<Rightarrow> widgets \<Rightarrow> stage list \<times> 'v ending" where
  "script l getenv ui =
     (let GEMINI_API_KEY = getenv (ascii ''GEMINI_API_KEY'');
          N8N_WEBHOOK_URL = getenv (ascii ''N8N_WEBHOOK_URL'')
      in case lib_Client l GEMINI_API_KEY of
           Inl e \<Rightarrow> ([], Crashed e)
         | Inr client \<Rightarrow>
             (case load_resume l (resume_file ui) of
                (st, Inl e) \<Rightarrow> (st, Crashed e)
              | (st, Inr resume_text) \<Rightarrow>
                  if button ui
                  then (let (st', ending) = action l client N8N_WEBHOOK_URL ui resume_text
                        in (st @ st', ending))
                  else (st, Idle)))"

section \<open>A run of the script\<close>

text \<open>
  The inputs of one run, used to evaluate the script: a model client that refuses a missing
  key, a model that answers with a fenced JSON object, the decoder with room for 900 levels
  of nesting, an environment that sets the API key and no webhook URL, and a filled form
  with a plain-text resume. \<open>requests.post\<close>
  raises \<open>MissingSchema\<close> when it is given no URL.
\<close>

definition scenario_libs :: "(unit, json) libs" where
  "scenario_libs =
     \<lparr>lib_Client = (\<lambda>key. case key of
                        None \<Rightarrow> Inl (ValueError (ascii ''Missing key inputs argument!''))
                      | Some k \<Rightarrow> Inr ()),
      lib_generate_content = (\<lambda>client p.
         Inr (Some (ascii ''```json\<newline>{\"match_score\": 90, \"recommendation\": \"APPLY\"}\<newline>```''))),
      lib_plumber = (\<lambda>f. (0, Inl (LibraryError ''PDFSyntaxError''))),
      lib_fitz = (\<lambda>bs. Inl (LibraryError ''FileDataError'')),
      lib_loads = json_loads 900,
      lib_post = (\<lambda>url body. case url of None \<Rightarrow> Raises MissingSchema | Some u \<Rightarrow> Response 200)\<rparr>"

definition scenario_env :: "str \<Rightarrow> str option" where
  "scenario_env name = (if name = ascii ''GEMINI_API_KEY'' then Some (ascii ''secret'') else None)"

definition scenario_widgets :: widgets where
  "scenario_widgets =
     \<lparr>candidate_name = ascii ''Jane Doe'', company = ascii ''Acme'', role = ascii ''Engineer'',
      recruiter_email = ascii ''r@acme.com'',
      resume_file = Some (ascii ''text/plain'',
        \<lparr>data = [0x35, 0x20, 0x79, 0x65, 0x61, 0x72, 0x73, 0x20, 0x50, 0x79, 0x74, 0x68, 0x6F, 0x6E],
         pos = 0\<rparr>),
      jd_text = ascii ''Need Python developer'', button = True\<rparr>"

section \<open>Auxiliary notions of the proofs\<close>

text \<open>
  The length of the run of backticks at the head of a string. Deleting the fences leaves
  of every run its length modulo three, so no fence survives.
\<close>

definition ticks :: "str \<Rightarrow> nat" where
  "ticks s = length (takeWhile (\<lambda>c. c = 96) s)"

declare replace.simps [simp del]

declare decimal.simps [simp del]

text \<open>The equations that evaluate the cleaning and the reference decoder on a literal.\<close>

lemmas clean_eval = ascii_def cleaned_def strip_def isspace_def fence_def fence_json_def
  replace.simps lbrace_def rbrace_def

lemmas utf8_eval = decode_utf8_def continuation_def second_of_3_def second_of_4_def

lemmas json_eval = json_loads_def ascii_def skip_ws_def json_ws_def is_digit_def
  scan_number_def int_part_def frac_part_def exp_part_def exp_digits_def digits_value_def
  literal_def simple_escape_def unicode_escape_def low_surrogate_def hex_digit_def
  int_max_str_digits_def eval_nat_numeral

section \<open>The regular expression search\<close>

lemma greedy_to_rbrace_None: "greedy_to_rbrace cs = None \<longleftrightarrow> rbrace \<notin> set cs"
  by (induction cs) (auto split: option.splits)

lemma greedy_to_rbrace_app:
  "rbrace \<notin> set q \<Longrightarrow> greedy_to_rbrace (m @ rbrace # q) = Some (m @ [rbrace])"
proof (induction m)
  case Nil
  then have "greedy_to_rbrace q = None" by (simp add: greedy_to_rbrace_None)
  then show ?case by simp
next
  case (Cons a m)
  then show ?case by simp
qed

lemma greedy_to_rbrace_Some:
  "greedy_to_rbrace cs = Some d \<Longrightarrow> \<exists>m q. cs = m @ rbrace # q \<and> d = m @ [rbrace] \<and> rbrace \<notin> set q"
proof (induction cs arbitrary: d)
  case Nil
  then show ?case by simp
next
  case (Cons c cs)
  show ?case
  proof (cases "greedy_to_rbrace cs")
    case None
    with Cons.prems have "c = rbrace" "d = [c]" by (auto split: if_splits)
    moreover from None have "rbrace \<notin> set cs" by (simp add: greedy_to_rbrace_None)
    ultimately show ?thesis by (intro exI[of _ "[]"] exI[of _ cs]) simp
  next
    case (Some m')
    with Cons.prems have d: "d = c # m'" by simp
    from Cons.IH[OF Some] obtain m q where "cs = m @ rbrace # q" "m' = m @ [rbrace]" "rbrace \<notin> set q"
      by blast
    with d show ?thesis by (intro exI[of _ "c # m"] exI[of _ q]) simp
  qed
qed

lemma re_search_app:
  "lbrace \<notin> set p \<Longrightarrow> rbrace \<notin> set q \<Longrightarrow>
   re_search (p @ lbrace # m @ rbrace # q) = Some (lbrace # m @ [rbrace])"
  by (induction p) (auto simp: greedy_to_rbrace_app)

lemma re_search_Some:
  "re_search s = Some d \<Longrightarrow>
   \<exists>p m q. s = p @ lbrace # m @ rbrace # q \<and> d = lbrace # m @ [rbrace] \<and> lbrace \<notin> set p \<and> rbrace \<notin> set q"
proof (induction s)
  case Nil
  then show ?case by simp
next
  case (Cons c cs)
  show ?case
  proof (cases "match_here (c # cs)")
    case None
    with Cons.prems have "re_search cs = Some d" by simp
    from Cons.IH[OF this] obtain p m q where
      *: "cs = p @ lbrace # m @ rbrace # q" "d = lbrace # m @ [rbrace]" "lbrace \<notin> set p" "rbrace \<notin> set q"
      by blast
    have "c \<noteq> lbrace"
    proof
      assume "c = lbrace"
      with None have "greedy_to_rbrace cs = None" by simp
      with * show False by (simp add: greedy_to_rbrace_None)
    qed
    with * show ?thesis by (intro exI[of _ "c # p"] exI[of _ m] exI[of _ q]) simp
  next
    case (Some d')
    with Cons.prems have [simp]: "d' = d" by simp
    from Some have c: "c = lbrace" by (auto split: if_splits)
    with Some obtain g where g: "greedy_to_rbrace cs = Some g" "d = c # g" by auto
    from greedy_to_rbrace_Some[OF g(1)] obtain m q where "cs = m @ rbrace # q" "g = m @ [rbrace]" "rbrace \<notin> set q"
      by blast
    with c g show ?thesis by (intro exI[of _ "[]"] exI[of _ m] exI[of _ q]) simp
  qed
qed



lemma re_search_Some_iff:
  "re_search s = Some d \<longleftrightarrow>
     (\<exists>p m q. s = p @ d @ q \<and> d = lbrace # m @ [rbrace] \<and> lbrace \<notin> set p \<and> rbrace \<notin> set q)"
proof
  assume "re_search s = Some d"
  from re_search_Some[OF this] obtain p m q where
    "s = p @ lbrace # m @ rbrace # q" "d = lbrace # m @ [rbrace]" "lbrace \<notin> set p"
    "rbrace \<notin> set q" by blast
  then have "s = p @ d @ q \<and> d = lbrace # m @ [rbrace] \<and> lbrace \<notin> set p \<and> rbrace \<notin> set q"
    by simp
  then show
    "\<exists>p m q. s = p @ d @ q \<and> d = lbrace # m @ [rbrace] \<and> lbrace \<notin> set p \<and> rbrace \<notin> set q"
    by blast
next
  assume "\<exists>p m q. s = p @ d @ q \<and> d = lbrace # m @ [rbrace] \<and> lbrace \<notin> set p \<and> rbrace \<notin> set q"
  then obtain p m q where "s = p @ lbrace # m @ rbrace # q" "d = lbrace # m @ [rbrace]"
    "lbrace \<notin> set p" "rbrace \<notin> set q" by auto
  then show "re_search s = Some d" by (simp add: re_search_app)
qed

section \<open>Replacing and stripping around a JSON object\<close>

lemma replace_Nil: "old \<noteq> [] \<Longrightarrow> replace old new [] = []"
  by (simp add: replace.simps)

lemma replace_match:
  "old \<noteq> [] \<Longrightarrow> prefix old (c # cs) \<Longrightarrow>
   replace old new (c # cs) = new @ replace old new (drop (length old) (c # cs))"
  by (simp add: replace.simps)

lemma replace_skip:
  "old \<noteq> [] \<Longrightarrow> \<not> prefix old (c # cs) \<Longrightarrow> replace old new (c # cs) = c # replace old new cs"
  by (simp add: replace.simps)








lemma fence_simps: "fence = [96, 96, 96]" "fence_json = [96, 96, 96, 106, 115, 111, 110]"
  by (simp_all add: fence_def fence_json_def ascii_def)



lemma fence_prefix_fence_json: "prefix fence fence_json"
  by (simp add: fence_simps)





lemma prefix_fence_ticks: "prefix fence s \<longleftrightarrow> 3 \<le> ticks s"
proof (cases s)
  case Nil
  then show ?thesis by (simp add: fence_simps ticks_def)
next
  case s1: (Cons a s1)
  show ?thesis
  proof (cases s1)
    case Nil
    with s1 show ?thesis by (simp add: fence_simps ticks_def)
  next
    case s2: (Cons b s2)
    show ?thesis
    proof (cases s2)
      case Nil
      with s1 s2 show ?thesis by (simp add: fence_simps ticks_def)
    next
      case (Cons c s3)
      with s1 s2 show ?thesis by (simp add: fence_simps ticks_def)
    qed
  qed
qed

lemma ticks_replace_fence: "ticks (replace fence [] s) = ticks s mod 3"
proof (induction fence "[] :: str" s rule: replace.induct)
  case 1
  then show ?case by (simp add: replace_Nil fence_simps ticks_def)
next
  case (2 c cs)
  have ne: "fence \<noteq> []" by (simp add: fence_simps)
  show ?case
  proof (cases "prefix fence (c # cs)")
    case True
    then obtain r where r: "c # cs = 96 # 96 # 96 # r"
      by (auto simp: fence_simps prefix_def)
    then have "drop (length fence) (c # cs) = r" by (simp add: fence_simps)
    with 2(1)[OF ne True] True ne have "ticks (replace fence [] (c # cs)) = ticks r mod 3"
      by (simp add: replace_match)
    moreover have "ticks (c # cs) = 3 + ticks r" unfolding r by (simp add: ticks_def)
    ultimately show ?thesis by simp
  next
    case False
    then have rep: "replace fence [] (c # cs) = c # replace fence [] cs"
      using ne by (simp add: replace_skip)
    show ?thesis
    proof (cases "c = 96")
      case True
      from False have "ticks (c # cs) < 3" by (simp add: prefix_fence_ticks)
      with True have "ticks cs < 2" by (simp add: ticks_def)
      moreover have "ticks (replace fence [] cs) = ticks cs mod 3"
        using 2(2)[OF ne False] .
      ultimately show ?thesis using True rep by (simp add: ticks_def)
    next
      case False
      with rep show ?thesis by (simp add: ticks_def)
    qed
  qed
qed

lemma no_fence_after_replace: "\<not> sublist fence (replace fence [] s)"
proof (induction fence "[] :: str" s rule: replace.induct)
  case 1
  then show ?case by (simp add: replace_Nil fence_simps)
next
  case (2 c cs)
  have ne: "fence \<noteq> []" by (simp add: fence_simps)
  show ?case
  proof (cases "prefix fence (c # cs)")
    case True
    with 2(1)[OF ne True] ne show ?thesis by (simp add: replace_match)
  next
    case False
    have "\<not> prefix fence (replace fence [] (c # cs))"
      by (simp add: prefix_fence_ticks ticks_replace_fence)
    moreover have "\<not> sublist fence (replace fence [] cs)"
      using 2(2)[OF ne False] .
    ultimately show ?thesis using False ne by (simp add: replace_skip sublist_Cons_right)
  qed
qed

lemma sublist_strip: "sublist (strip s) s"
proof -
  have "suffix (dropWhile isspace (rev (dropWhile isspace s))) (rev (dropWhile isspace s))"
    by (rule suffix_dropWhile)
  then have "prefix (strip s) (dropWhile isspace s)"
    by (simp add: suffix_to_prefix strip_def)
  moreover have "suffix (dropWhile isspace s) s" by (rule suffix_dropWhile)
  ultimately show ?thesis
    by (meson prefix_imp_sublist suffix_imp_sublist sublist_order.order_trans)
qed

lemma no_fence_in_cleaned: "\<not> sublist fence (cleaned text)"
  using no_fence_after_replace[of "replace fence_json [] text"] sublist_strip
  by (metis cleaned_def sublist_order.order_trans)

section \<open>The reference decoder on a long integer\<close>





text \<open>An array or object nested deeper than the room left gives \<open>RecursionError\<close>.\<close>

lemma json_loads_nested_too_deep:
  "json_loads 1 (ascii ''{\"a\": [1]}'') = Inl RecursionError"
  "json_loads 2 (ascii ''{\"a\": [1]}'') = Inr (JObject [(ascii ''a'', JArray [JInt 1])])"
  by (simp_all add: json_eval)


section \<open>Claims about the safe JSON parser\<close>

text \<open>
  Claim C2. Whatever the model returned, \<open>safe_json_parse\<close> hands to the decoder exactly
  the part of the cleaned text (fences deleted, then stripped) that runs from its first
  opening brace to its last closing brace: if the cleaned text is \<open>p\<close>, then an opening
  brace, then \<open>m\<close>, then a closing brace, then \<open>q\<close>, with no opening brace in \<open>p\<close>
  and no closing brace in \<open>q\<close>, the result is what the decoder gives on brace, \<open>m\<close>,
  brace.
  Nothing is asked of \<open>m\<close>: it may hold newlines, further braces, and the prose between
  two blocks.
\<close>

theorem safe_json_parse_first_to_last:
  assumes "cleaned text = p @ lbrace # m @ rbrace # q" "lbrace \<notin> set p" "rbrace \<notin> set q"
  shows "safe_json_parse loads text = loads (lbrace # m @ [rbrace])"
  using assms by (simp add: safe_json_parse_def re_search_app)

text \<open>
  The instance with two blocks: the span runs from the brace that opens the first block to
  the brace that closes the second, across the line breaks and the prose between them;
  that span is not a JSON document, and the decoder rejects it.
\<close>

theorem safe_json_parse_first_to_last_witness:
  "cleaned (ascii ''```json\<newline>{\"a\": 1}\<newline>``` and then\<newline>{\"b\": 2} done'')
     = [] @ lbrace # ascii ''\"a\": 1}\<newline> and then\<newline>{\"b\": 2'' @ rbrace # ascii '' done''
   \<and> lbrace \<notin> set ([] :: str) \<and> rbrace \<notin> set (ascii '' done'')
   \<and> safe_json_parse (json_loads 900)
         (ascii ''```json\<newline>{\"a\": 1}\<newline>``` and then\<newline>{\"b\": 2} done'')
       = Inl (JSONDecodeError (ascii ''{\"a\": 1}\<newline> and then\<newline>{\"b\": 2}''))"
proof -
  have h1: "cleaned (ascii ''```json\<newline>{\"a\": 1}\<newline>``` and then\<newline>{\"b\": 2} done'')
     = [] @ lbrace # ascii ''\"a\": 1}\<newline> and then\<newline>{\"b\": 2'' @ rbrace # ascii '' done''"
    by (simp add: clean_eval)
  have h2: "lbrace \<notin> set ([] :: str)" by simp
  have h3: "rbrace \<notin> set (ascii '' done'')" by (simp add: clean_eval)
  have h4: "lbrace # ascii ''\"a\": 1}\<newline> and then\<newline>{\"b\": 2'' @ [rbrace]
      = ascii ''{\"a\": 1}\<newline> and then\<newline>{\"b\": 2}''"
    by (simp add: clean_eval)
  have h5: "json_loads 900 (ascii ''{\"a\": 1}\<newline> and then\<newline>{\"b\": 2}'')
      = Inl (JSONDecodeError (ascii ''{\"a\": 1}\<newline> and then\<newline>{\"b\": 2}''))"
    by (simp add: json_eval)
  show ?thesis
    using safe_json_parse_first_to_last[OF h1 h2 h3, of "json_loads 900"] h1 h2 h3
    by (simp only: h4 h5 simp_thms)
qed







text \<open>
  Claim C10. The text that is searched for braces holds no occurrence of the fence
  \<open>```\<close>, hence none of \<open>```json\<close>, wherever in the model output they stood, inside
  JSON strings included; so there is a JSON object with backticks in a string field for
  which the value returned differs from the value embedded, the backticks being gone.
\<close>

theorem fences_deleted_everywhere:
  "\<not> sublist fence (cleaned text) \<and> \<not> sublist fence_json (cleaned text) \<and>
   json_loads 900 (ascii ''{\"summary\": \"use ```ls``` here\"}'')
     = Inr (JObject [(ascii ''summary'', JString (ascii ''use ```ls``` here''))]) \<and>
   safe_json_parse (json_loads 900) (ascii ''{\"summary\": \"use ```ls``` here\"}'')
     = Inr (JObject [(ascii ''summary'', JString (ascii ''use ls here''))])"
proof -
  have 1: "\<not> sublist fence (cleaned text)" by (rule no_fence_in_cleaned)
  have 2: "\<not> sublist fence_json (cleaned text)"
    using 1 fence_prefix_fence_json
    by (meson prefix_imp_sublist sublist_order.order_trans)
  have o: "json_loads 900 (ascii ''{\"summary\": \"use ```ls``` here\"}'')
     = Inr (JObject [(ascii ''summary'', JString (ascii ''use ```ls``` here''))])"
    by (simp add: json_eval)
  have c: "cleaned (ascii ''{\"summary\": \"use ```ls``` here\"}'')
     = ascii ''{\"summary\": \"use ls here\"}''"
    by (simp add: clean_eval)
  have s: "re_search (ascii ''{\"summary\": \"use ls here\"}'')
     = Some (ascii ''{\"summary\": \"use ls here\"}'')"
    by (simp add: clean_eval)
  have l: "json_loads 900 (ascii ''{\"summary\": \"use ls here\"}'')
     = Inr (JObject [(ascii ''summary'', JString (ascii ''use ls here''))])"
    by (simp add: json_eval)
  have r: "safe_json_parse (json_loads 900) (ascii ''{\"summary\": \"use ```ls``` here\"}'')
     = Inr (JObject [(ascii ''summary'', JString (ascii ''use ls here''))])"
    by (simp only: safe_json_parse_def c s l option.case)
  show ?thesis using 1 2 o r by blast
qed

theorem fences_deleted_everywhere_witness:
  "\<not> sublist fence (cleaned (ascii ''a```json b``` c'')) \<and>
   cleaned (ascii ''a```json b``` c'') = ascii ''a b c''"
proof -
  have "cleaned (ascii ''a```json b``` c'') = ascii ''a b c''" by (simp add: clean_eval)
  then show ?thesis using fences_deleted_everywhere[of "ascii ''a```json b``` c''"] by simp
qed

section \<open>Claims about the file helpers\<close>

lemma strip_decomposition:
  "\<exists>l t. s = l @ strip s @ t \<and> (\<forall>c\<in>set l. isspace c) \<and> (\<forall>c\<in>set t. isspace c)"
proof -
  define y where "y = dropWhile isspace s"
  have 1: "s = takeWhile isspace s @ y" by (simp add: y_def)
  have "y = rev (takeWhile isspace (rev y) @ dropWhile isspace (rev y))"
    by (simp only: takeWhile_dropWhile_id rev_rev_ident)
  then have "y = rev (dropWhile isspace (rev y)) @ rev (takeWhile isspace (rev y))"
    by (simp only: rev_append)
  then have 2: "y = strip s @ rev (takeWhile isspace (rev y))"
    by (simp only: strip_def y_def)
  have 3: "\<forall>c\<in>set (takeWhile isspace s). isspace c"
    by (auto dest: set_takeWhileD)
  have 4: "\<forall>c\<in>set (rev (takeWhile isspace (rev y))). isspace c"
    by (auto dest: set_takeWhileD)
  from 1 2 have "s = takeWhile isspace s @ strip s @ rev (takeWhile isspace (rev y))"
    by simp
  with 3 4 show ?thesis by blast
qed

lemma strip_ends:
  "strip s = [] \<or> (\<not> isspace (hd (strip s)) \<and> \<not> isspace (last (strip s)))"
proof (cases "strip s = []")
  case True
  then show ?thesis by simp
next
  case False
  define y where "y = dropWhile isspace s"
  define z where "z = dropWhile isspace (rev y)"
  have s: "strip s = rev z" by (simp add: strip_def y_def z_def)
  with False have z: "z \<noteq> []" by simp
  then have "\<not> isspace (hd z)" unfolding z_def by (rule hd_dropWhile)
  then have l: "\<not> isspace (last (strip s))" using z by (simp add: s last_rev)
  have "suffix z (rev y)" unfolding z_def by (rule suffix_dropWhile)
  then obtain u where u: "rev y = u @ z" by (auto simp: suffix_def)
  then have "y = rev z @ rev u" by (metis rev_append rev_rev_ident)
  then have yz: "hd y = hd (rev z)" using z by simp
  have "y \<noteq> []" using u z by auto
  then have "\<not> isspace (hd y)" unfolding y_def by (rule hd_dropWhile)
  with yz have "\<not> isspace (hd (strip s))" by (simp add: s)
  with l show ?thesis by simp
qed

text \<open>
  Claim C4. For an uploaded text document read from its start whose bytes are valid UTF-8,
  the extracted text is the decoded text with its leading and trailing whitespace removed:
  the decoded text is a run of whitespace, then the extracted text, then a run of
  whitespace, and the extracted text neither begins nor ends with whitespace.
\<close>

theorem extract_text_from_txt_trimmed:
  assumes "pos file = 0" and "decode_utf8 (data file) = Some s"
  shows "\<exists>r l t. extract_text_from_txt file = Inr r \<and> s = l @ r @ t \<and>
           (\<forall>c\<in>set l. isspace c) \<and> (\<forall>c\<in>set t. isspace c) \<and>
           (r = [] \<or> (\<not> isspace (hd r) \<and> \<not> isspace (last r)))"
proof -
  have "extract_text_from_txt file = Inr (strip s)"
    using assms by (simp add: extract_text_from_txt_def read_def)
  then show ?thesis using strip_decomposition[of s] strip_ends[of s] by blast
qed

theorem extract_text_from_txt_trimmed_witness:
  "pos \<lparr>data = [0x20, 0x0A, 0x63, 0x61, 0x66, 0xC3, 0xA9, 0x20, 0x0A], pos = 0\<rparr> = 0 \<and>
   decode_utf8 (data \<lparr>data = [0x20, 0x0A, 0x63, 0x61, 0x66, 0xC3, 0xA9, 0x20, 0x0A], pos = 0\<rparr>)
     = Some [32, 10, 99, 97, 102, 233, 32, 10] \<and>
   extract_text_from_txt \<lparr>data = [0x20, 0x0A, 0x63, 0x61, 0x66, 0xC3, 0xA9, 0x20, 0x0A], pos = 0\<rparr>
     = Inr [99, 97, 102, 233]"
proof -
  have h1: "pos \<lparr>data = [0x20, 0x0A, 0x63, 0x61, 0x66, 0xC3, 0xA9, 0x20, 0x0A], pos = 0\<rparr> = 0"
    by simp
  have h2: "decode_utf8 (data \<lparr>data = [0x20, 0x0A, 0x63, 0x61, 0x66, 0xC3, 0xA9, 0x20, 0x0A], pos = 0\<rparr>)
     = Some [32, 10, 99, 97, 102, 233, 32, 10]"
    by (simp add: utf8_eval)
  have "extract_text_from_txt \<lparr>data = [0x20, 0x0A, 0x63, 0x61, 0x66, 0xC3, 0xA9, 0x20, 0x0A], pos = 0\<rparr>
     = Inr [99, 97, 102, 233]"
    by (simp add: extract_text_from_txt_def read_def utf8_eval strip_def isspace_def)
  moreover note extract_text_from_txt_trimmed[OF h1 h2]
  ultimately show ?thesis using h1 h2 by blast
qed

text \<open>
  Claim C5, as the code has it. Neither helper wraps an exception. The text path raises
  exactly when the bytes are not valid UTF-8, and what it raises is the decoder's own
  \<open>UnicodeDecodeError\<close>. The PDF path raises exactly when the primary engine raised and
  the fallback engine raises as well, and what it raises is the fallback's exception,
  unchanged; an exception of the primary engine never escapes.
\<close>

theorem extraction_exceptions:
  "(extract_text_from_txt file = Inl e
      \<longleftrightarrow> e = UnicodeDecodeError \<and> decode_utf8 (fst (read file)) = None) \<and>
   (extract_text_from_pdf plumber fitz file = Inl x
      \<longleftrightarrow> snd (primary plumber file) \<noteq> None \<and>
          fitz (fst (read (file\<lparr>pos := fst (plumber file)\<rparr>))) = Inl x)"
proof -
  have 1: "extract_text_from_txt file = Inl e
      \<longleftrightarrow> e = UnicodeDecodeError \<and> decode_utf8 (fst (read file)) = None"
    by (auto simp: extract_text_from_txt_def split: option.splits)
  have 2: "extract_text_from_pdf plumber fitz file = Inl x
      \<longleftrightarrow> snd (primary plumber file) \<noteq> None \<and>
          fitz (fst (read (file\<lparr>pos := fst (plumber file)\<rparr>))) = Inl x"
    by (cases "primary plumber file")
       (auto simp: extract_text_from_pdf_def split: option.splits sum.splits)
  from 1 2 show ?thesis by blast
qed

theorem extraction_exceptions_witness:
  "extract_text_from_txt \<lparr>data = [0xFF], pos = 0\<rparr> = Inl UnicodeDecodeError \<and>
   extract_text_from_pdf (\<lambda>f. (0, Inl (LibraryError ''PDFSyntaxError'')))
       (\<lambda>bs. Inl (LibraryError ''FileDataError'')) \<lparr>data = [0xFF], pos = 0\<rparr>
     = Inl (LibraryError ''FileDataError'')"
proof -
  have a: "decode_utf8 (fst (read \<lparr>data = [0xFF], pos = 0\<rparr>)) = None"
    by (simp add: read_def utf8_eval)
  have b: "snd (primary (\<lambda>f. (0, Inl (LibraryError ''PDFSyntaxError''))) \<lparr>data = [0xFF], pos = 0\<rparr>)
             \<noteq> None"
    by (simp add: primary_def)
  show ?thesis
    using extraction_exceptions[of "\<lparr>data = [0xFF], pos = 0\<rparr>" UnicodeDecodeError
        "\<lambda>f. (0, Inl (LibraryError ''PDFSyntaxError''))"
        "\<lambda>bs. Inl (LibraryError ''FileDataError'')" "LibraryError ''FileDataError''"] a b
    by simp
qed

text \<open>
  A text file in Latin-1 is not valid UTF-8: the exception of the decoder escapes as it is.
\<close>

theorem extraction_raw_exception_counterexample:
  "extract_text_from_txt \<lparr>data = [0x63, 0x61, 0x66, 0xE9], pos = 0\<rparr> = Inl UnicodeDecodeError"
  by (simp add: extract_text_from_txt_def read_def utf8_eval)

text \<open>
  When the primary engine raised before it extracted anything, the result is the stripped
  concatenation of the fallback's page texts, read from where the primary engine left the
  stream.
\<close>

lemma extract_text_from_pdf_fallback_only:
  assumes "primary plumber file = ([], Some e)"
    and "fitz (fst (read (file\<lparr>pos := fst (plumber file)\<rparr>))) = Inr texts"
  shows "extract_text_from_pdf plumber fitz file = Inr (strip (concat texts))"
  using assms by (simp add: extract_text_from_pdf_def)

text \<open>
  Claim C6 at an input where it fails. The primary engine extracts the first page and
  raises on the second; \<open>text\<close> is not reset before the fallback runs, so the text of
  the first page comes twice: the result is not the fallback's concatenated page text.
\<close>

theorem extract_text_from_pdf_keeps_partial_text:
  "extract_text_from_pdf
     (\<lambda>f. (0, Inr [Text (ascii ''A''), Fails (LibraryError ''PDFSyntaxError'')]))
     (\<lambda>bs. Inr [ascii ''A'', ascii ''B'']) \<lparr>data = [0x25, 0x50, 0x44, 0x46], pos = 0\<rparr>
     = Inr (ascii ''AAB'') \<and>
   strip (concat [ascii ''A'', ascii ''B'']) = ascii ''AB''"
  by (simp add: extract_text_from_pdf_def primary_def strip_def isspace_def ascii_def)

section \<open>Claims about the prompt\<close>

text \<open>
  Claim C7. The prompt is the fixed head, the resume segment, the fixed middle, the job
  description segment and the fixed tail; each segment is the first min(4000, length)
  code points of its input, so it is never longer than 4000, and an input of at most 4000
  code points is embedded unchanged. The analysis therefore depends on the inputs only
  through their first 4000 code points.
\<close>

theorem prompt_segments:
  "prompt resume jd =
     prompt_head @ take (min 4000 (length resume)) resume @ prompt_mid @
     take (min 4000 (length jd)) jd @ prompt_tail \<and>
   length (take (min 4000 (length resume)) resume) = min 4000 (length resume) \<and>
   length (take (min 4000 (length jd)) jd) = min 4000 (length jd) \<and>
   length (take (min 4000 (length resume)) resume) \<le> 4000 \<and>
   length (take (min 4000 (length jd)) jd) \<le> 4000 \<and>
   (length resume \<le> 4000 \<longrightarrow> take (min 4000 (length resume)) resume = resume) \<and>
   (length jd \<le> 4000 \<longrightarrow> take (min 4000 (length jd)) jd = jd) \<and>
   analyze_resume_vs_jd generate resume jd =
     analyze_resume_vs_jd generate (take 4000 resume) (take 4000 jd)"
  by (simp add: prompt_def analyze_resume_vs_jd_def min_def)

theorem prompt_segments_witness:
  "length (ascii ''5 years Python'') \<le> 4000 \<and>
   length (replicate 5000 (120 :: nat)) > 4000 \<and>
   prompt (ascii ''5 years Python'') (replicate 5000 120) =
     prompt_head @ ascii ''5 years Python'' @ prompt_mid @ replicate 4000 120 @ prompt_tail"
proof -
  have h: "length (ascii ''5 years Python'') \<le> 4000" by (simp add: ascii_def)
  have "take (min 4000 (length (ascii ''5 years Python''))) (ascii ''5 years Python'')
          = ascii ''5 years Python''"
    using prompt_segments[of "ascii ''5 years Python''" "replicate 5000 120"] h by blast
  moreover have "take (min 4000 (length (replicate 5000 (120::nat)))) (replicate 5000 120)
          = replicate 4000 120" by simp
  ultimately show ?thesis
    using prompt_segments[of "ascii ''5 years Python''" "replicate 5000 120"] h by simp
qed

section \<open>Claims about the dispatch\<close>

text \<open>
  Claim C8. A POST that raises \<open>ReadTimeout\<close> is reported as a success; a POST that raises
  anything else is a failure, shown by \<open>st.error\<close> when the exception is a
  \<open>RequestException\<close> and left uncaught otherwise; and in every case exactly one POST
  request is issued.
\<close>

theorem dispatch_outcomes:
  "(post url payload = Raises ReadTimeout \<longrightarrow> fst (dispatch post url payload) = Accepted) \<and>
   (post url payload = Raises e \<and> e \<noteq> ReadTimeout \<longrightarrow>
      fst (dispatch post url payload) = (if is_RequestException e then FailedToReach e else Uncaught e)) \<and>
   snd (dispatch post url payload) = [(url, payload)]"
  by (auto simp: dispatch_def split: post_result.splits)

theorem dispatch_outcomes_witness:
  "dispatch (\<lambda>u p. if u = None then Raises ConnectionError else Raises ReadTimeout)
      (Some (ascii ''http://n8n/hook'')) [(ascii ''role'', Str (ascii ''Engineer'') :: unit field)]
     = (Accepted, [(Some (ascii ''http://n8n/hook''), [(ascii ''role'', Str (ascii ''Engineer''))])]) \<and>
   dispatch (\<lambda>u p. if u = None then Raises ConnectionError else Raises ReadTimeout)
      None [(ascii ''role'', Str (ascii ''Engineer'') :: unit field)]
     = (FailedToReach ConnectionError, [(None, [(ascii ''role'', Str (ascii ''Engineer''))])])"
proof -
  let ?post = "\<lambda>(u :: str option) (p :: unit payload).
                 if u = None then Raises ConnectionError else Raises ReadTimeout"
  let ?p = "[(ascii ''role'', Str (ascii ''Engineer'') :: unit field)]"
  have a: "?post (Some (ascii ''http://n8n/hook'')) ?p = Raises ReadTimeout" by simp
  have b: "?post None ?p = Raises ConnectionError \<and> ConnectionError \<noteq> ReadTimeout" by simp
  have c: "is_RequestException ConnectionError" by (simp add: is_RequestException_def)
  from dispatch_outcomes[of ?post "Some (ascii ''http://n8n/hook'')" ?p] a
  have 1: "dispatch ?post (Some (ascii ''http://n8n/hook'')) ?p
             = (Accepted, [(Some (ascii ''http://n8n/hook''), ?p)])"
    by (metis prod.collapse)
  from dispatch_outcomes[of ?post None ?p ConnectionError] b c
  have 2: "dispatch ?post None ?p = (FailedToReach ConnectionError, [(None, ?p)])"
    by (metis prod.collapse)
  from 1 2 show ?thesis by simp
qed

section \<open>Claims about the configuration\<close>

text \<open>
  Claim C9, as the code has it. The script checks neither configuration value itself. The
  API key goes to the constructor of the model client, and when that constructor raises the
  run ends before any pipeline stage. The webhook URL is looked at by nothing before the
  dispatch: the stages entered are the same whatever the URL is, and a run that does not
  reach the dispatch is the same run whatever the URL is.
\<close>

theorem script_config:
  "(lib_Client l (getenv (ascii ''GEMINI_API_KEY'')) = Inl e \<longrightarrow>
      script l getenv ui = ([], Crashed e)) \<and>
   fst (script l (getenv(ascii ''N8N_WEBHOOK_URL'' := u)) ui) = fst (script l getenv ui) \<and>
   (Dispatch \<notin> set (fst (script l getenv ui)) \<longrightarrow>
      script l (getenv(ascii ''N8N_WEBHOOK_URL'' := u)) ui = script l getenv ui)"
proof -
  have ne: "ascii ''GEMINI_API_KEY'' \<noteq> ascii ''N8N_WEBHOOK_URL''" by (simp add: ascii_def)
  have 1: "lib_Client l (getenv (ascii ''GEMINI_API_KEY'')) = Inl e \<longrightarrow>
      script l getenv ui = ([], Crashed e)"
    by (simp add: script_def)
  have a: "fst (action l c x ui r) = fst (action l c y ui r)" for c x y r
    by (simp add: action_def split: sum.splits)
  have b: "Dispatch \<notin> set (fst (action l c x ui r)) \<longrightarrow> action l c y ui r = action l c x ui r"
    for c x y r
    by (simp add: action_def split: sum.splits)
  have st: "Dispatch \<notin> set (fst (load_resume l f))" for f
    by (simp add: load_resume_def split: option.splits)
  have 2: "fst (script l (getenv(ascii ''N8N_WEBHOOK_URL'' := u)) ui) = fst (script l getenv ui)"
    using ne a[of _ u _ "getenv (ascii ''N8N_WEBHOOK_URL'')"]
    by (simp add: script_def Let_def split_beta split: sum.splits)
  have 3: "Dispatch \<notin> set (fst (script l getenv ui)) \<longrightarrow>
      script l (getenv(ascii ''N8N_WEBHOOK_URL'' := u)) ui = script l getenv ui"
  proof (cases "lib_Client l (getenv (ascii ''GEMINI_API_KEY''))")
    case (Inl x)
    then show ?thesis using ne by (simp add: script_def)
  next
    case (Inr c)
    obtain st r where lr: "load_resume l (resume_file ui) = (st, r)" by (cases "load_resume l (resume_file ui)")
    show ?thesis
    proof (cases r)
      case (Inl x)
      with Inr lr show ?thesis using ne by (simp add: script_def)
    next
      case r: (Inr t)
      show ?thesis
      proof (cases "button ui")
        case False
        with Inr lr r show ?thesis using ne by (simp add: script_def)
      next
        case True
        obtain s1 e1 where a1: "action l c (getenv (ascii ''N8N_WEBHOOK_URL'')) ui t = (s1, e1)"
          by (cases "action l c (getenv (ascii ''N8N_WEBHOOK_URL'')) ui t")
        show ?thesis
        proof
          assume "Dispatch \<notin> set (fst (script l getenv ui))"
          with Inr lr r True a1 have "Dispatch \<notin> set s1" by (simp add: script_def)
          with a1 b[of c "getenv (ascii ''N8N_WEBHOOK_URL'')" t u]
          have "action l c u ui t = (s1, e1)" by simp
          with Inr lr r True a1 ne
          show "script l (getenv(ascii ''N8N_WEBHOOK_URL'' := u)) ui = script l getenv ui"
            by (simp add: script_def)
        qed
      qed
    qed
  qed
  from 1 2 3 show ?thesis by blast
qed

theorem script_config_witness:
  "lib_Client scenario_libs ((\<lambda>name. None) (ascii ''GEMINI_API_KEY''))
     = Inl (ValueError (ascii ''Missing key inputs argument!'')) \<and>
   script scenario_libs (\<lambda>name. None) scenario_widgets
     = ([], Crashed (ValueError (ascii ''Missing key inputs argument!'')))"
proof -
  have h: "lib_Client scenario_libs ((\<lambda>name. None) (ascii ''GEMINI_API_KEY''))
     = Inl (ValueError (ascii ''Missing key inputs argument!''))"
    by (simp add: scenario_libs_def)
  from script_config[of scenario_libs "\<lambda>name. None"
      "ValueError (ascii ''Missing key inputs argument!'')" scenario_widgets] h
  show ?thesis by blast
qed

text \<open>
  With the webhook URL missing the whole pipeline runs, extraction, model call and parse,
  and only the POST fails.
\<close>

theorem missing_webhook_url_counterexample:
  "scenario_env (ascii ''N8N_WEBHOOK_URL'') = None \<and>
   script scenario_libs scenario_env scenario_widgets
     = ([Extraction, ModelCall, Parse, Dispatch],
        Automation (JObject [(ascii ''match_score'', JInt 90),
                             (ascii ''recommendation'', JString (ascii ''APPLY''))])
                   (FailedToReach MissingSchema))"
proof -
  have n: "scenario_env (ascii ''N8N_WEBHOOK_URL'') = None"
    by (simp add: scenario_env_def ascii_def)
  have k: "scenario_env (ascii ''GEMINI_API_KEY'') = Some (ascii ''secret'')"
    by (simp add: scenario_env_def)
  have e: "extract_text_from_txt
        \<lparr>data = [0x35, 0x20, 0x79, 0x65, 0x61, 0x72, 0x73, 0x20, 0x50, 0x79, 0x74, 0x68, 0x6F, 0x6E],
         pos = 0\<rparr> = Inr (ascii ''5 years Python'')"
    by (simp add: extract_text_from_txt_def read_def utf8_eval strip_def isspace_def ascii_def)
  have lr: "load_resume scenario_libs (resume_file scenario_widgets)
              = ([Extraction], Inr (ascii ''5 years Python''))"
    using e by (simp add: load_resume_def scenario_widgets_def ascii_def)
  have f: "all_filled scenario_widgets (ascii ''5 years Python'')"
    by (simp add: all_filled_def scenario_widgets_def ascii_def strip_def isspace_def)
  have s: "strip (ascii ''```json\<newline>{\"match_score\": 90, \"recommendation\": \"APPLY\"}\<newline>```'')
             = ascii ''```json\<newline>{\"match_score\": 90, \"recommendation\": \"APPLY\"}\<newline>```''"
    by (simp add: strip_def isspace_def ascii_def)
  have a: "analyze_resume_vs_jd (lib_generate_content scenario_libs ()) (ascii ''5 years Python'')
              (jd_text scenario_widgets)
            = Inr (ascii ''```json\<newline>{\"match_score\": 90, \"recommendation\": \"APPLY\"}\<newline>```'')"
    by (simp add: analyze_resume_vs_jd_def scenario_libs_def s)
  have c: "cleaned (ascii ''```json\<newline>{\"match_score\": 90, \"recommendation\": \"APPLY\"}\<newline>```'')
             = ascii ''{\"match_score\": 90, \"recommendation\": \"APPLY\"}''"
    by (simp add: clean_eval)
  have r: "re_search (ascii ''{\"match_score\": 90, \"recommendation\": \"APPLY\"}'')
             = Some (ascii ''{\"match_score\": 90, \"recommendation\": \"APPLY\"}'')"
    by (simp add: clean_eval)
  have j: "json_loads 900 (ascii ''{\"match_score\": 90, \"recommendation\": \"APPLY\"}'')
             = Inr (JObject [(ascii ''match_score'', JInt 90),
                              (ascii ''recommendation'', JString (ascii ''APPLY''))])"
    by (simp add: json_eval)
  have p: "safe_json_parse (lib_loads scenario_libs)
             (ascii ''```json\<newline>{\"match_score\": 90, \"recommendation\": \"APPLY\"}\<newline>```'')
           = Inr (JObject [(ascii ''match_score'', JInt 90),
                           (ascii ''recommendation'', JString (ascii ''APPLY''))])"
    by (simp add: scenario_libs_def safe_json_parse_def c r j)
  have d: "fst (dispatch (lib_post scenario_libs) None payload) = FailedToReach MissingSchema"
    for payload
    by (simp add: dispatch_def scenario_libs_def is_RequestException_def)
  have act: "action scenario_libs () None scenario_widgets (ascii ''5 years Python'')
      = ([ModelCall, Parse, Dispatch],
         Automation (JObject [(ascii ''match_score'', JInt 90),
                              (ascii ''recommendation'', JString (ascii ''APPLY''))])
                    (FailedToReach MissingSchema))"
    by (simp only: action_def f a p d simp_thms if_False sum.case)
  have cl: "lib_Client scenario_libs (Some (ascii ''secret'')) = Inr ()"
    by (simp add: scenario_libs_def)
  have b: "button scenario_widgets" by (simp add: scenario_widgets_def)
  have "script scenario_libs scenario_env scenario_widgets
     = ([Extraction, ModelCall, Parse, Dispatch],
        Automation (JObject [(ascii ''match_score'', JInt 90),
                             (ascii ''recommendation'', JString (ascii ''APPLY''))])
                   (FailedToReach MissingSchema))"
    by (simp add: script_def n k cl lr b act)
  with n show ?thesis by simp
qed

end
